theory Spec2Isabelle
  imports Main
begin

section \<open>Hades-Mailer: the two mail routes of routes/index.js\<close>

text \<open>
  The router has two POST handlers: \<^verbatim>\<open>/sendMail\<close> resolves an audience from a registry
  service and mails every participant, \<^verbatim>\<open>/sendMail/:customEmail\<close> mails one address.
  Both are async functions. A handler is modelled as a function that returns the list of
  the effects it performed, in order, together with the way its promise settled.
  The libraries the handlers call (md5, qrcode, showdown, @sendgrid/mail, axios and the
  validator functions of express-validator) are parameters of the model.
\<close>

subsection \<open>Values and errors\<close>

text \<open>A JSON value of a request body, as far as the handlers look at it.\<close>

datatype jsval = JUndefined | JBool bool | JNum int | JStr string

text \<open>
  What a \<^verbatim>\<open>throw\<close> carries: the two errors the language itself raises in these handlers,
  and the rejection of a promise returned by a library, with its detail.
\<close>

datatype jserror = ReferenceError string | TypeError string | Rejected string

text \<open>JavaScript's truthiness, used by \<^verbatim>\<open>isMarkdown ? ... : ...\<close>.\<close>

fun truthy :: "jsval \<Rightarrow> bool" where
  "truthy JUndefined = False"
| "truthy (JBool b) = b"
| "truthy (JNum n) = (n \<noteq> 0)"
| "truthy (JStr s) = (s \<noteq> [])"

subsection \<open>Requests\<close>

text \<open>
  The fields both routes read from \<^verbatim>\<open>req.body\<close>. A text field that is missing is the
  empty string: the validators turn the value into a string first, and a missing value
  becomes the empty one.
\<close>

record mail_fields =
  eventName :: string
  mailSubject :: string
  mailBody :: string
  isMarkdown :: jsval

record batch_req = mail_fields +
  sendTo :: string
  gender :: string
  day :: jsval
  specific :: jsval
  accessToken :: jsval

record direct_req = mail_fields +
  customEmail :: string

subsection \<open>The registry\<close>

record participant =
  email :: string

text \<open>
  What \<^verbatim>\<open>await instance.post(...)\<close> resolves to. \<^verbatim>\<open>data\<close> is the list of participants the
  registry sent. \<^verbatim>\<open>rs\<close> is the value of the property \<^verbatim>\<open>rs\<close> of the object itself, the one
  the handler reads, and \<open>None\<close> when the object has no such property. An object resolved
  by axios has the properties data, status, statusText, headers, config and request, and
  no \<^verbatim>\<open>rs\<close>: every answer the handler receives has \<open>rs = None\<close>.
\<close>

record response =
  data :: "participant list"
  rs :: "participant list option"

record query =
  q_key :: string
  q_value :: string
  q_specific :: jsval

text \<open>The body posted to the registry; \<^verbatim>\<open>p_day\<close> is \<open>None\<close> where the object has no day.\<close>

record payload =
  p_event :: string
  p_day :: "jsval option"
  p_query :: query

subsection \<open>Messages and replies\<close>

record attachment =
  content :: string
  filename :: string
  mime_type :: string
  disposition :: string

record msg =
  to_addr :: string
  from_addr :: string
  subject :: string
  html :: string
  attachments :: "attachment list"

text \<open>One entry of \<^verbatim>\<open>errors.array()\<close>.\<close>

record verror =
  v_location :: string
  v_param :: string
  v_msg :: string

datatype errval = ErrNull | ErrText string | ErrList "verror list" | ErrObj jserror

text \<open>The object given to \<^verbatim>\<open>res.send\<close>; \<^verbatim>\<open>participants\<close> is present in one reply only.\<close>

record reply =
  status :: string
  err :: errval
  participants :: "nat option"

subsection \<open>Effects\<close>

datatype event =
    RegistryPost jsval string payload
  | Log jserror
  | Respond nat reply
  | QrEncode string
  | MailSend msg

datatype outcome = Returned | Threw jserror

type_synonym run = "event list \<times> outcome"

fun deliveries :: "event list \<Rightarrow> msg list" where
  "deliveries [] = []"
| "deliveries (MailSend m # es) = m # deliveries es"
| "deliveries (_ # es) = deliveries es"

fun encodings :: "event list \<Rightarrow> string list" where
  "encodings [] = []"
| "encodings (QrEncode t # es) = t # encodings es"
| "encodings (_ # es) = encodings es"

fun responses :: "event list \<Rightarrow> (nat \<times> reply) list" where
  "responses [] = []"
| "responses (Respond n b # es) = (n, b) # responses es"
| "responses (_ # es) = responses es"

fun logged :: "event list \<Rightarrow> jserror list" where
  "logged [] = []"
| "logged (Log e # es) = e # logged es"
| "logged (_ # es) = logged es"

fun registry_calls :: "event list \<Rightarrow> (jsval \<times> string \<times> payload) list" where
  "registry_calls [] = []"
| "registry_calls (RegistryPost a u p # es) = (a, u, p) # registry_calls es"
| "registry_calls (_ # es) = registry_calls es"

subsection \<open>The libraries\<close>

text \<open>
  \<^verbatim>\<open>instance_post\<close> takes the Authorization header the axios instance was created
  with, the path and the body. A promise that rejects (or a call that throws) is \<open>Inl\<close>.
\<close>

record collab =
  md5 :: "string \<Rightarrow> string"
  qr_toDataURL :: "string \<Rightarrow> jserror + string"
  makeHtml :: "string \<Rightarrow> string"
  mail_send :: "msg \<Rightarrow> jserror + unit"
  instance_post :: "jsval \<Rightarrow> string \<Rightarrow> payload \<Rightarrow> jserror + response"
  isBoolean :: "jsval \<Rightarrow> bool"
  isInt :: "jsval \<Rightarrow> bool"
  isEmail :: "string \<Rightarrow> bool"
  trim :: "string \<Rightarrow> string"
  escape :: "string \<Rightarrow> string"
  FROM_EMAIL :: string

subsection \<open>Validation\<close>

text \<open>\<^verbatim>\<open>isEmpty\<close> looks at the value as a string: only a missing value and \<^verbatim>\<open>""\<close> are empty.\<close>

fun isEmpty :: "jsval \<Rightarrow> bool" where
  "isEmpty JUndefined = True"
| "isEmpty (JStr s) = (s = [])"
| "isEmpty (JBool b) = False"
| "isEmpty (JNum n) = False"

definition isIn :: "string \<Rightarrow> string list \<Rightarrow> bool" where
  "isIn s xs = (s \<in> set xs)"

text \<open>A validator of a chain that does not hold adds one entry for its field.\<close>

definition failing :: "string \<Rightarrow> string \<Rightarrow> bool \<Rightarrow> verror list" where
  "failing loc p ok =
     (if ok then [] else [\<lparr>v_location = loc, v_param = p, v_msg = ''Invalid value''\<rparr>])"

definition validate_batch :: "collab \<Rightarrow> batch_req \<Rightarrow> verror list" where
  "validate_batch c r =
     failing ''body'' ''eventName'' (\<not> isEmpty (JStr (eventName r))) @
     failing ''body'' ''mailSubject'' (\<not> isEmpty (JStr (mailSubject r))) @
     failing ''body'' ''mailBody'' (\<not> isEmpty (JStr (mailBody r))) @
     failing ''body'' ''sendTo'' (\<not> isEmpty (JStr (sendTo r))) @
     failing ''body'' ''sendTo'' (isIn (sendTo r) [''absent'', ''present'', ''both'']) @
     failing ''body'' ''gender'' (\<not> isEmpty (JStr (gender r))) @
     failing ''body'' ''gender'' (isIn (gender r) [''male'', ''female'', ''both'']) @
     failing ''body'' ''isMarkdown'' (\<not> isEmpty (isMarkdown r)) @
     failing ''body'' ''isMarkdown'' (isBoolean c (isMarkdown r)) @
     failing ''body'' ''day'' (\<not> isEmpty (day r)) @
     failing ''body'' ''day'' (isInt c (day r))"

definition validate_direct :: "collab \<Rightarrow> direct_req \<Rightarrow> verror list" where
  "validate_direct c r =
     failing ''body'' ''eventName'' (\<not> isEmpty (JStr (eventName r))) @
     failing ''body'' ''mailSubject'' (\<not> isEmpty (JStr (mailSubject r))) @
     failing ''body'' ''mailBody'' (\<not> isEmpty (JStr (mailBody r))) @
     failing ''body'' ''isMarkdown'' (\<not> isEmpty (isMarkdown r)) @
     failing ''body'' ''isMarkdown'' (isBoolean c (isMarkdown r)) @
     failing ''params'' ''customEmail'' (\<not> isEmpty (JStr (customEmail r))) @
     failing ''params'' ''customEmail'' (isEmail c (customEmail r))"

text \<open>
  The chain of \<^verbatim>\<open>mailBody\<close> ends in \<^verbatim>\<open>.trim().escape()\<close>: the handler reads the body
  after both.
\<close>

definition sanitized_body :: "collab \<Rightarrow> string \<Rightarrow> string" where
  "sanitized_body c b = escape c (trim c b)"

subsection \<open>Audience resolution (lines 130 to 176 of the handler)\<close>

text \<open>
  One \<^verbatim>\<open>try { response = await instance.post(...) } catch (e) { console.log(e) }\<close>:
  a rejection is logged and leaves \<^verbatim>\<open>response\<close> undefined.
\<close>

definition try_post :: "collab \<Rightarrow> jsval \<Rightarrow> string \<Rightarrow> payload \<Rightarrow> event list \<times> response option" where
  "try_post c auth url p =
     (case instance_post c auth url p of
        Inl e \<Rightarrow> ([RegistryPost auth url p, Log e], None)
      | Inr resp \<Rightarrow> ([RegistryPost auth url p], Some resp))"

text \<open>
  The \<^verbatim>\<open>switch (sendTo)\<close> with its three cases, each written out as in the source;
  no case matching leaves \<^verbatim>\<open>response\<close> undefined without a call.
\<close>

definition resolve :: "collab \<Rightarrow> batch_req \<Rightarrow> event list \<times> response option" where
  "resolve c r =
     (if sendTo r = ''absent'' then
        try_post c (accessToken r) ''simple-projection/project-absent''
          \<lparr>p_event = eventName r, p_day = Some (day r),
           p_query = \<lparr>q_key = ''gender'',
                      q_value = (if gender r = ''female'' then ''F'' else ''M''),
                      q_specific = specific r\<rparr>\<rparr>
      else if sendTo r = ''present'' then
        try_post c (accessToken r) ''simple-projection/project-absent''
          \<lparr>p_event = eventName r, p_day = Some (day r),
           p_query = \<lparr>q_key = ''gender'',
                      q_value = (if gender r = ''female'' then ''F'' else ''M''),
                      q_specific = specific r\<rparr>\<rparr>
      else if sendTo r = ''both'' then
        try_post c (accessToken r) ''simple-projection/project-all''
          \<lparr>p_event = eventName r, p_day = None,
           p_query = \<lparr>q_key = ''gender'',
                      q_value = (if gender r = ''female'' then ''F'' else ''M''),
                      q_specific = specific r\<rparr>\<rparr>
      else ([], None))"

subsection \<open>Credential and message\<close>

text \<open>The token: \<^verbatim>\<open>md5(address + eventName)\<close>, as both routes write it.\<close>

definition derive_token :: "collab \<Rightarrow> string \<Rightarrow> string \<Rightarrow> string" where
  "derive_token c address event = md5 c (address @ event)"

text \<open>
  \<^verbatim>\<open>let code; try { code = await qr.toDataURL(token) } catch (e) { console.log(e) }\<close>:
  a failed encoding is logged and leaves \<^verbatim>\<open>code\<close> undefined (\<open>None\<close>).
\<close>

definition encode_credential :: "collab \<Rightarrow> string \<Rightarrow> event list \<times> string option" where
  "encode_credential c token =
     (case qr_toDataURL c token of
        Inl e \<Rightarrow> ([QrEncode token, Log e], None)
      | Inr url \<Rightarrow> ([QrEncode token], Some url))"

text \<open>
  The batch route evaluates \<^verbatim>\<open>md5(participant.email + eventName)\<close> at line 193, before
  the loop. The only declaration of \<^verbatim>\<open>participant\<close> is the loop variable of the
  \<^verbatim>\<open>for ... of\<close> at line 199, whose scope is that loop; neither the handler, the module
  nor app.js binds the name. So no binding is visible at line 193, reading the name
  throws a ReferenceError inside the \<^verbatim>\<open>try\<close>, and neither md5 nor the encoder is called.
\<close>

definition participant_at_line_193 :: "participant option" where
  "participant_at_line_193 = None"

definition derive_batch_code :: "collab \<Rightarrow> batch_req \<Rightarrow> event list \<times> string option" where
  "derive_batch_code c r =
     (case participant_at_line_193 of
        None \<Rightarrow> ([Log (ReferenceError ''participant'')], None)
      | Some p \<Rightarrow> encode_credential c (derive_token c (email p) (eventName r)))"

text \<open>\<^verbatim>\<open>s.replace(/^data:image\/(png|jpg);base64,/, "")\<close>.\<close>

definition strip_data_uri :: "string \<Rightarrow> string" where
  "strip_data_uri s =
     (if take 22 s = ''data:image/png;base64,'' then drop 22 s
      else if take 22 s = ''data:image/jpg;base64,'' then drop 22 s
      else s)"

text \<open>
  The object literal \<^verbatim>\<open>msg\<close>. Its properties are evaluated in order; the last one calls
  \<^verbatim>\<open>code.replace\<close>, which throws a TypeError when \<^verbatim>\<open>code\<close> is undefined. The literal
  stands outside every \<^verbatim>\<open>try\<close> in both routes.
\<close>

definition compose :: "collab \<Rightarrow> string \<Rightarrow> string \<Rightarrow> string \<Rightarrow> jsval \<Rightarrow> string option \<Rightarrow> jserror + msg" where
  "compose c rcpt subj body md code =
     (let h = (if truthy md then makeHtml c body else body) in
      case code of
        None \<Rightarrow> Inl (TypeError ''code.replace'')
      | Some s \<Rightarrow>
          Inr \<lparr>to_addr = rcpt, from_addr = FROM_EMAIL c, subject = subj, html = h,
               attachments = [\<lparr>content = strip_data_uri s, filename = ''qrcode.png'',
                                mime_type = ''image/png'', disposition = ''attachment''\<rparr>]\<rparr>)"

definition after :: "event list \<Rightarrow> run \<Rightarrow> run" where
  "after t x = (t @ fst x, snd x)"

subsection \<open>The batch route\<close>

text \<open>
  The loop of lines 199 to 219, for any value of \<^verbatim>\<open>code\<close>: compose, then
  \<^verbatim>\<open>try { await mail.send(msg) } catch (e) { console.log(e) }\<close>, then the next participant.
\<close>

fun send_each :: "collab \<Rightarrow> string \<Rightarrow> string \<Rightarrow> jsval \<Rightarrow> string option \<Rightarrow> participant list \<Rightarrow> run" where
  "send_each c subj body md code [] = ([], Returned)"
| "send_each c subj body md code (p # ps) =
     (case compose c (email p) subj body md code of
        Inl e \<Rightarrow> ([], Threw e)
      | Inr m \<Rightarrow>
          (case mail_send c m of
             Inl e \<Rightarrow> after [MailSend m, Log e] (send_each c subj body md code ps)
           | Inr u \<Rightarrow> after [MailSend m] (send_each c subj body md code ps)))"

definition validation_failed :: "verror list \<Rightarrow> event" where
  "validation_failed errors =
     Respond 422 \<lparr>status = ''ValidationFailed'', err = ErrList errors, participants = None\<rparr>"

definition empty_participants :: event where
  "empty_participants =
     Respond 500 \<lparr>status = ''EmptyParticipants'', err = ErrText ''Participant list is empty'',
                  participants = None\<rparr>"

definition batch_success :: "nat \<Rightarrow> event" where
  "batch_success n = Respond 200 \<lparr>status = ''success'', err = ErrNull, participants = Some n\<rparr>"

text \<open>
  Line 178 is \<^verbatim>\<open>typeof response === 'undefined' || response.rs.length === 0\<close>. With
  \<^verbatim>\<open>response\<close> defined it reads \<^verbatim>\<open>length\<close> of \<^verbatim>\<open>response.rs\<close>, which throws a TypeError when
  \<^verbatim>\<open>response.rs\<close> is undefined. The line stands after the last \<^verbatim>\<open>try\<close> of the switch and
  before any \<^verbatim>\<open>res.send\<close>, so the promise of the handler rejects with nothing replied.
  The 200 reply of line 184 is not a \<^verbatim>\<open>return\<close>: the handler goes on to line 191.
\<close>

definition sendMail :: "collab \<Rightarrow> batch_req \<Rightarrow> run" where
  "sendMail c r =
     (let errors = validate_batch c r in
      if errors \<noteq> [] then ([validation_failed errors], Returned)
      else
        let body = sanitized_body c (mailBody r);
            res = resolve c r
        in case snd res of
             None \<Rightarrow> (fst res @ [empty_participants], Returned)
           | Some resp \<Rightarrow>
               (case rs resp of
                  None \<Rightarrow> (fst res, Threw (TypeError ''response.rs.length''))
                | Some ps \<Rightarrow>
                    if length ps = 0 then (fst res @ [empty_participants], Returned)
                    else
                      let cd = derive_batch_code c r in
                      after (fst res @ [batch_success (length ps)] @ fst cd)
                        (send_each c (mailSubject r) body (isMarkdown r) (snd cd) ps)))"

subsection \<open>The direct route\<close>

definition direct_success :: event where
  "direct_success = Respond 200 \<lparr>status = ''success'', err = ErrNull, participants = None\<rparr>"

definition mail_not_sent :: "jserror \<Rightarrow> event" where
  "mail_not_sent e = Respond 500 \<lparr>status = ''MailNotSent'', err = ErrObj e, participants = None\<rparr>"

definition sendCustomMail :: "collab \<Rightarrow> direct_req \<Rightarrow> run" where
  "sendCustomMail c r =
     (let errors = validate_direct c r in
      if errors \<noteq> [] then ([validation_failed errors], Returned)
      else
        let body = sanitized_body c (mailBody r);
            cd = encode_credential c (derive_token c (customEmail r) (eventName r))
        in case compose c (customEmail r) (mailSubject r) body (isMarkdown r) (snd cd) of
             Inl e \<Rightarrow> (fst cd, Threw e)
           | Inr m \<Rightarrow>
               (case mail_send c m of
                  Inr u \<Rightarrow> (fst cd @ [MailSend m, direct_success], Returned)
                | Inl e \<Rightarrow> (fst cd @ [MailSend m, Log e, mail_not_sent e], Returned)))"

subsection \<open>Test doubles\<close>

text \<open>
  Concrete libraries and requests for evaluating the handlers: a registry that sends three
  participants, delivered the way axios delivers an answer, an encoder and a mail provider
  that succeed, md5 replaced by list reversal.
\<close>

definition three :: response where
  "three =
     \<lparr>data = [\<lparr>email = ''a@x.org''\<rparr>, \<lparr>email = ''b@x.org''\<rparr>, \<lparr>email = ''c@x.org''\<rparr>],
      rs = None\<rparr>"

definition stub :: collab where
  "stub =
     \<lparr>md5 = rev,
      qr_toDataURL = (\<lambda>t. Inr (''data:image/png;base64,'' @ t)),
      makeHtml = (\<lambda>s. ''<p>'' @ s @ ''</p>''),
      mail_send = (\<lambda>m. Inr ()),
      instance_post = (\<lambda>a u p. Inr three),
      isBoolean = (\<lambda>v. v = JBool True \<or> v = JBool False),
      isInt = (\<lambda>v. case v of JNum n \<Rightarrow> True | _ \<Rightarrow> False),
      isEmail = (\<lambda>s. CHR ''@'' \<in> set s),
      trim = (\<lambda>s. s),
      escape = (\<lambda>s. s),
      FROM_EMAIL = ''noreply@x.org''\<rparr>"

text \<open>The registry is down.\<close>

definition stub_down :: collab where
  "stub_down = stub\<lparr>instance_post := (\<lambda>a u p. Inl (Rejected ''timeout''))\<rparr>"

text \<open>The registry answers, with no participant.\<close>

definition nobody :: response where
  "nobody = \<lparr>data = [], rs = None\<rparr>"

definition stub_nobody :: collab where
  "stub_nobody = stub\<lparr>instance_post := (\<lambda>a u p. Inr nobody)\<rparr>"

text \<open>The encoder fails on the token of one address, \<^verbatim>\<open>b@x.org\<close>, and on no other.\<close>

definition stub_one_bad :: collab where
  "stub_one_bad =
     stub\<lparr>qr_toDataURL :=
       (\<lambda>t. if t = rev ''b@x.orgFest'' then Inl (Rejected ''encoding failed'')
            else Inr (''data:image/png;base64,'' @ t))\<rparr>"

text \<open>The encoder fails on every token.\<close>

definition stub_no_qr :: collab where
  "stub_no_qr = stub\<lparr>qr_toDataURL := (\<lambda>t. Inl (Rejected ''encoding failed''))\<rparr>"

definition fest :: batch_req where
  "fest =
     \<lparr>eventName = ''Fest'', mailSubject = ''Welcome'', mailBody = ''**hi**'',
      isMarkdown = JBool True, sendTo = ''both'', gender = ''both'', day = JNum 2,
      specific = JUndefined, accessToken = JStr ''secret''\<rparr>"

definition one :: direct_req where
  "one =
     \<lparr>eventName = ''Fest'', mailSubject = ''Welcome'', mailBody = ''**hi**'',
      isMarkdown = JBool True, customEmail = ''a@x.org''\<rparr>"

text \<open>A second direct request to the same address for the same event.\<close>

definition other :: direct_req where
  "other = one\<lparr>mailSubject := ''Reminder'', mailBody := ''see you'', isMarkdown := JBool False\<rparr>"

section \<open>Properties\<close>

subsection \<open>Reading a run\<close>

lemma deliveries_append: "deliveries (xs @ ys) = deliveries xs @ deliveries ys"
  by (induction xs rule: deliveries.induct) simp_all

lemma encodings_append: "encodings (xs @ ys) = encodings xs @ encodings ys"
  by (induction xs rule: encodings.induct) simp_all

lemma responses_append: "responses (xs @ ys) = responses xs @ responses ys"
  by (induction xs rule: responses.induct) simp_all

lemma logged_append: "logged (xs @ ys) = logged xs @ logged ys"
  by (induction xs rule: logged.induct) simp_all

subsection \<open>Resolution and validation\<close>

lemma try_post_quiet:
  "deliveries (fst (try_post c a u p)) = [] \<and> encodings (fst (try_post c a u p)) = [] \<and>
   responses (fst (try_post c a u p)) = []"
  by (simp add: try_post_def split: sum.splits)

lemma resolve_quiet:
  "deliveries (fst (resolve c r)) = [] \<and> encodings (fst (resolve c r)) = [] \<and>
   responses (fst (resolve c r)) = []"
  by (simp add: resolve_def try_post_quiet)

lemma resolve_registry_only:
  "instance_post c' = instance_post c \<Longrightarrow> resolve c' r = resolve c r"
  by (simp add: resolve_def try_post_def)

lemma validate_batch_validators_only:
  "isBoolean c' = isBoolean c \<Longrightarrow> isInt c' = isInt c \<Longrightarrow>
   validate_batch c' r = validate_batch c r"
  by (simp add: validate_batch_def)

lemma valid_sendTo:
  "validate_batch c r = [] \<Longrightarrow>
   sendTo r = ''absent'' \<or> sendTo r = ''present'' \<or> sendTo r = ''both''"
  by (simp add: validate_batch_def failing_def isIn_def split: if_splits)

subsection \<open>The loop and the credential of the batch route\<close>

lemma send_each_responses: "responses (fst (send_each c subj body md code ps)) = []"
proof (induction ps)
  case Nil
  show ?case by simp
next
  case (Cons p ps)
  then show ?case
    by (simp add: after_def responses_append split: sum.splits)
qed

lemma send_each_encodings: "encodings (fst (send_each c subj body md code ps)) = []"
proof (induction ps)
  case Nil
  show ?case by simp
next
  case (Cons p ps)
  then show ?case
    by (simp add: after_def encodings_append split: sum.splits)
qed

text \<open>With \<^verbatim>\<open>code\<close> undefined the first participant's message cannot be built.\<close>

lemma send_each_undefined:
  "ps \<noteq> [] \<Longrightarrow> send_each c subj body md None ps = ([], Threw (TypeError ''code.replace''))"
  by (cases ps) (simp_all add: compose_def)

text \<open>
  With \<^verbatim>\<open>code\<close> defined the loop reaches every participant, whatever the provider
  answers, and every message carries the same attachment.
\<close>

lemma send_each_defined:
  "snd (send_each c subj body md (Some u) ps) = Returned \<and>
   deliveries (fst (send_each c subj body md (Some u) ps)) =
     map (\<lambda>p. \<lparr>to_addr = email p, from_addr = FROM_EMAIL c, subject = subj,
                html = (if truthy md then makeHtml c body else body),
                attachments = [\<lparr>content = strip_data_uri u, filename = ''qrcode.png'',
                                 mime_type = ''image/png'', disposition = ''attachment''\<rparr>]\<rparr>) ps"
proof (induction ps)
  case Nil
  show ?case by simp
next
  case (Cons p ps)
  then show ?case
    by (simp add: after_def compose_def deliveries_append split: sum.splits)
qed

lemma derive_batch_code_fails:
  "derive_batch_code c r = ([Log (ReferenceError ''participant'')], None)"
  by (simp add: derive_batch_code_def participant_at_line_193_def)

subsection \<open>Every run of the batch route\<close>

text \<open>
  The handler has five ways to end: a 422 reply; a 500 reply when \<^verbatim>\<open>response\<close> is
  undefined; a TypeError at line 178 with nothing replied when \<^verbatim>\<open>response\<close> has no
  \<^verbatim>\<open>rs\<close>; a 500 reply when \<^verbatim>\<open>response.rs\<close> is empty; and, when \<^verbatim>\<open>response.rs\<close> has
  an entry, the 200 reply followed by the failed derivation of line 193 and the TypeError
  of the first message.
\<close>

lemma sendMail_runs:
  "sendMail c r =
     (if validate_batch c r \<noteq> [] then ([validation_failed (validate_batch c r)], Returned)
      else case snd (resolve c r) of
          None \<Rightarrow> (fst (resolve c r) @ [empty_participants], Returned)
        | Some resp \<Rightarrow>
            (case rs resp of
               None \<Rightarrow> (fst (resolve c r), Threw (TypeError ''response.rs.length''))
             | Some ps \<Rightarrow>
                 if ps = [] then (fst (resolve c r) @ [empty_participants], Returned)
                 else (fst (resolve c r) @
                         [batch_success (length ps), Log (ReferenceError ''participant'')],
                       Threw (TypeError ''code.replace''))))"
  by (simp add: sendMail_def Let_def derive_batch_code_fails after_def send_each_undefined
      split: option.splits)

lemma sendMail_answer_without_rs:
  assumes "validate_batch c r = []" and "snd (resolve c r) = Some resp" and "rs resp = None"
  shows "sendMail c r = (fst (resolve c r), Threw (TypeError ''response.rs.length''))"
  using assms by (simp add: sendMail_runs)

lemma sendMail_undefined_response:
  assumes "validate_batch c r = []" and "snd (resolve c r) = None"
  shows "sendMail c r = (fst (resolve c r) @ [empty_participants], Returned)"
  using assms by (simp add: sendMail_runs)


lemma batch_encodings: "encodings (fst (sendMail c b)) = []"
  by (simp add: sendMail_runs validation_failed_def empty_participants_def batch_success_def
      encodings_append resolve_quiet split: option.splits)

text \<open>
  A rejected registry call is logged, leaves \<^verbatim>\<open>response\<close> undefined, and is answered
  with the EmptyParticipants reply.
\<close>

lemma upstream_failure_swallowed:
  assumes "validate_batch c r = []"
    and "\<forall>url p. instance_post c (accessToken r) url p = Inl e"
  shows "snd (resolve c r) = None \<and>
         logged (fst (resolve c r)) = [e] \<and>
         sendMail c r = (fst (resolve c r) @ [empty_participants], Returned) \<and>
         responses (fst (sendMail c r)) =
           [(500, \<lparr>status = ''EmptyParticipants'', err = ErrText ''Participant list is empty'',
                   participants = None\<rparr>)]"
proof -
  have post: "try_post c (accessToken r) url p =
      ([RegistryPost (accessToken r) url p, Log e], None)" for url p
    using assms(2) by (simp add: try_post_def)
  have undef: "snd (resolve c r) = None"
    by (simp add: resolve_def post)
  have log: "logged (fst (resolve c r)) = [e]"
    using valid_sendTo [OF assms(1)] by (auto simp add: resolve_def post)
  have run: "sendMail c r = (fst (resolve c r) @ [empty_participants], Returned)"
    using assms(1) undef by (rule sendMail_undefined_response)
  have reply: "responses (fst (sendMail c r)) =
      [(500, \<lparr>status = ''EmptyParticipants'', err = ErrText ''Participant list is empty'',
              participants = None\<rparr>)]"
    by (simp add: run responses_append resolve_quiet empty_participants_def)
  from undef log run reply show ?thesis by simp
qed

subsection \<open>The three ways the direct route ends\<close>

lemma direct_encodings:
  assumes "validate_direct c r = []"
  shows "encodings (fst (sendCustomMail c r)) = [derive_token c (customEmail r) (eventName r)]"
  using assms
  by (simp add: sendCustomMail_def Let_def encode_credential_def encodings_append
      direct_success_def mail_not_sent_def split: sum.splits)

lemma direct_sent:
  assumes "validate_direct c r = []"
    and "qr_toDataURL c (derive_token c (customEmail r) (eventName r)) = Inr u"
    and "compose c (customEmail r) (mailSubject r) (sanitized_body c (mailBody r))
           (isMarkdown r) (Some u) = Inr m"
    and "mail_send c m = Inr ()"
  shows "sendCustomMail c r =
           ([QrEncode (derive_token c (customEmail r) (eventName r)), MailSend m, direct_success],
            Returned)"
  using assms by (simp add: sendCustomMail_def Let_def encode_credential_def)

lemma direct_delivery_failed:
  assumes "validate_direct c r = []"
    and "qr_toDataURL c (derive_token c (customEmail r) (eventName r)) = Inr u"
    and "compose c (customEmail r) (mailSubject r) (sanitized_body c (mailBody r))
           (isMarkdown r) (Some u) = Inr m"
    and "mail_send c m = Inl e"
  shows "sendCustomMail c r =
           ([QrEncode (derive_token c (customEmail r) (eventName r)), MailSend m, Log e,
             mail_not_sent e], Returned)"
  using assms by (simp add: sendCustomMail_def Let_def encode_credential_def)

lemma direct_encoding_failed:
  assumes "validate_direct c r = []"
    and "qr_toDataURL c (derive_token c (customEmail r) (eventName r)) = Inl e"
  shows "sendCustomMail c r =
           ([QrEncode (derive_token c (customEmail r) (eventName r)), Log e],
            Threw (TypeError ''code.replace''))"
  using assms by (simp add: sendCustomMail_def Let_def encode_credential_def compose_def)

subsection \<open>The test doubles\<close>

lemmas double_defs =
  stub_def three_def nobody_def fest_def one_def other_def stub_down_def stub_nobody_def
  stub_one_bad_def stub_no_qr_def

lemmas handler_defs =
  sendMail_def sendCustomMail_def validate_batch_def validate_direct_def failing_def isIn_def
  resolve_def try_post_def derive_batch_code_def participant_at_line_193_def after_def
  compose_def sanitized_body_def batch_success_def empty_participants_def
  validation_failed_def direct_success_def mail_not_sent_def encode_credential_def
  derive_token_def strip_data_uri_def



section \<open>The claims\<close>

subsection \<open>The batch route\<close>

text \<open>
  C1. The claim: in the batch route every recipient's message is built with an attachment
  derived from that recipient's own address, so three recipients with distinct addresses
  get three distinct attachments. The handler does not do this. On a valid request for
  which the registry sends three distinct addresses, with an encoder and a mail provider
  that never fail, the handler posts the query and its promise rejects at line 178: no
  message is built and none is sent. (Past line 178 the code would not do it either:
  \<open>derive_batch_code_fails\<close>, \<open>send_each_undefined\<close>, \<open>send_each_defined\<close>.)
\<close>

theorem fest_builds_no_message:
  "validate_batch stub fest = [] \<and>
   data three = [\<lparr>email = ''a@x.org''\<rparr>, \<lparr>email = ''b@x.org''\<rparr>, \<lparr>email = ''c@x.org''\<rparr>] \<and>
   distinct (map email (data three)) \<and>
   sendMail stub fest =
     ([RegistryPost (JStr ''secret'') ''simple-projection/project-all''
         \<lparr>p_event = ''Fest'', p_day = None,
          p_query = \<lparr>q_key = ''gender'', q_value = ''M'', q_specific = JUndefined\<rparr>\<rparr>],
      Threw (TypeError ''response.rs.length'')) \<and>
   deliveries (fst (sendMail stub fest)) = []"
  by (simp add: double_defs handler_defs)



text \<open>
  C3. The claim: when the encoder fails for exactly one of N recipients, N - 1 deliveries
  are attempted, one encoding failure is recorded and the batch completes. The handler
  does not do this. With three recipients sent by the registry and an encoder that fails
  on the token of exactly one of them, the handler calls the encoder for no recipient,
  attempts no delivery, records nothing, and its promise rejects at line 178.
\<close>

theorem one_bad_encoding_no_delivery:
  "validate_batch stub_one_bad fest = [] \<and>
   length (data three) = 3 \<and>
   length (filter (\<lambda>p. isl (qr_toDataURL stub_one_bad
                               (derive_token stub_one_bad (email p) (eventName fest))))
             (data three)) = 1 \<and>
   snd (resolve stub_one_bad fest) = Some three \<and>
   length (deliveries (fst (sendMail stub_one_bad fest))) = 0 \<and>
   encodings (fst (sendMail stub_one_bad fest)) = [] \<and>
   logged (fst (sendMail stub_one_bad fest)) = [] \<and>
   snd (sendMail stub_one_bad fest) = Threw (TypeError ''response.rs.length'')"
  by (simp add: double_defs handler_defs)

text \<open>
  C4. The claim: whenever the resolution succeeds with a participant, the success reply
  with the number of participants is sent, before any delivery is attempted and whatever
  the deliveries do. The handler does not send it. On a valid request for which the
  registry sends three participants, the handler replies nothing: its promise rejects at
  line 178, before the \<^verbatim>\<open>res.send\<close> of line 184, and this is so whatever the mail provider
  and the encoder do.
\<close>

theorem fest_gets_no_reply:
  "validate_batch stub fest = [] \<and>
   snd (resolve stub fest) = Some three \<and>
   length (data three) = 3 \<and>
   responses (fst (sendMail stub fest)) = [] \<and>
   snd (sendMail stub fest) = Threw (TypeError ''response.rs.length'') \<and>
   (\<forall>send enc.
      responses (fst (sendMail (stub\<lparr>mail_send := send, qr_toDataURL := enc\<rparr>) fest)) = [] \<and>
      snd (sendMail (stub\<lparr>mail_send := send, qr_toDataURL := enc\<rparr>) fest) =
        Threw (TypeError ''response.rs.length''))"
  by (simp add: double_defs handler_defs)

text \<open>
  C5. The claim: a registry call that fails is logged and not surfaced, and the caller
  gets what it gets for an empty audience, the EmptyParticipants reply, so that the two
  cannot be told apart. The first half holds (\<open>upstream_failure_swallowed\<close>). The second
  does not: when the registry is down the handler replies 500 EmptyParticipants and
  returns; when the registry answers with no participant the handler replies nothing and
  its promise rejects at line 178.
\<close>

theorem failure_and_empty_answer_differ:
  "validate_batch stub_down fest = [] \<and>
   logged (fst (sendMail stub_down fest)) = [Rejected ''timeout''] \<and>
   responses (fst (sendMail stub_down fest)) =
     [(500, \<lparr>status = ''EmptyParticipants'', err = ErrText ''Participant list is empty'',
             participants = None\<rparr>)] \<and>
   snd (sendMail stub_down fest) = Returned \<and>
   validate_batch stub_nobody fest = [] \<and>
   snd (resolve stub_nobody fest) = Some nobody \<and>
   data nobody = [] \<and>
   responses (fst (sendMail stub_nobody fest)) = [] \<and>
   snd (sendMail stub_nobody fest) = Threw (TypeError ''response.rs.length'')"
  by (simp add: double_defs handler_defs)

text \<open>
  C6. The claim: when the resolution yields no list or a list with no entry, the handler
  ends the request with the EmptyParticipants reply, and derives, composes and delivers
  nothing. With \<^verbatim>\<open>response\<close> undefined it does (\<open>sendMail_undefined_response\<close>), and no
  run of the route derives a token or delivers (\<open>batch_encodings\<close>, \<open>batch_deliveries\<close>).
  With an answer of the registry that has no entry it does not: the run is the registry
  call alone, nothing is replied, and the promise rejects at line 178.
\<close>

theorem empty_answer_gets_no_reply:
  "validate_batch stub_nobody fest = [] \<and>
   instance_post stub_nobody (accessToken fest) ''simple-projection/project-all''
       \<lparr>p_event = ''Fest'', p_day = None,
        p_query = \<lparr>q_key = ''gender'', q_value = ''M'', q_specific = JUndefined\<rparr>\<rparr> =
     Inr \<lparr>data = [], rs = None\<rparr> \<and>
   sendMail stub_nobody fest =
     ([RegistryPost (JStr ''secret'') ''simple-projection/project-all''
         \<lparr>p_event = ''Fest'', p_day = None,
          p_query = \<lparr>q_key = ''gender'', q_value = ''M'', q_specific = JUndefined\<rparr>\<rparr>],
      Threw (TypeError ''response.rs.length'')) \<and>
   responses (fst (sendMail stub_nobody fest)) = []"
  by (simp add: double_defs handler_defs)

text \<open>
  C7. Two batch requests that differ only in \<^verbatim>\<open>sendTo\<close>, one \<^verbatim>\<open>absent\<close> and one
  \<^verbatim>\<open>present\<close>, resolve alike: each posts once, to \<^verbatim>\<open>simple-projection/project-absent\<close>,
  the same body with the event, the day and the gender query, under the same
  Authorization header, and the two runs of the handler are equal.
\<close>

theorem absent_present_same_query:
  fixes r :: batch_req
  shows "resolve c (r\<lparr>sendTo := ''absent''\<rparr>) = resolve c (r\<lparr>sendTo := ''present''\<rparr>) \<and>
    registry_calls (fst (resolve c (r\<lparr>sendTo := ''absent''\<rparr>))) =
      [(accessToken r, ''simple-projection/project-absent'',
        \<lparr>p_event = eventName r, p_day = Some (day r),
         p_query = \<lparr>q_key = ''gender'',
                    q_value = (if gender r = ''female'' then ''F'' else ''M''),
                    q_specific = specific r\<rparr>\<rparr>)] \<and>
    registry_calls (fst (resolve c (r\<lparr>sendTo := ''present''\<rparr>))) =
      [(accessToken r, ''simple-projection/project-absent'',
        \<lparr>p_event = eventName r, p_day = Some (day r),
         p_query = \<lparr>q_key = ''gender'',
                    q_value = (if gender r = ''female'' then ''F'' else ''M''),
                    q_specific = specific r\<rparr>\<rparr>)] \<and>
    sendMail c (r\<lparr>sendTo := ''absent''\<rparr>) = sendMail c (r\<lparr>sendTo := ''present''\<rparr>)"
proof -
  have q: "resolve c (r\<lparr>sendTo := ''absent''\<rparr>) = resolve c (r\<lparr>sendTo := ''present''\<rparr>)"
    by (simp add: resolve_def)
  have v: "validate_batch c (r\<lparr>sendTo := ''absent''\<rparr>) =
      validate_batch c (r\<lparr>sendTo := ''present''\<rparr>)"
    by (simp add: validate_batch_def failing_def isIn_def)
  have a: "registry_calls (fst (resolve c (r\<lparr>sendTo := ''absent''\<rparr>))) =
      [(accessToken r, ''simple-projection/project-absent'',
        \<lparr>p_event = eventName r, p_day = Some (day r),
         p_query = \<lparr>q_key = ''gender'',
                    q_value = (if gender r = ''female'' then ''F'' else ''M''),
                    q_specific = specific r\<rparr>\<rparr>)]"
    by (simp add: resolve_def try_post_def split: sum.splits)
  have s: "sendMail c (r\<lparr>sendTo := ''absent''\<rparr>) = sendMail c (r\<lparr>sendTo := ''present''\<rparr>)"
    unfolding sendMail_runs q v by (rule refl)
  from q a s show ?thesis by simp
qed

subsection \<open>The direct route\<close>

text \<open>
  C8. The claim: every valid direct request ends in one of three outcomes reported to the
  caller: success, a credential encoding failure, or a delivery failure with the
  provider's error. Success and delivery failure are reported (lemmas \<open>direct_sent\<close>
  and \<open>direct_delivery_failed\<close>). An encoding failure is not: on a valid request with an
  encoder that fails, the handler logs the error, throws the TypeError of
  \<^verbatim>\<open>code.replace\<close> outside every \<^verbatim>\<open>try\<close>, and sends no reply at all.
\<close>

theorem direct_encoding_failure_unreported:
  "validate_direct stub_no_qr one = [] \<and>
   sendCustomMail stub_no_qr one =
     ([QrEncode (rev ''a@x.orgFest''), Log (Rejected ''encoding failed'')],
      Threw (TypeError ''code.replace'')) \<and>
   responses (fst (sendCustomMail stub_no_qr one)) = [] \<and>
   deliveries (fst (sendCustomMail stub_no_qr one)) = []"
  by (simp add: double_defs handler_defs)

text \<open>
  C9. For every direct request whose address the e-mail validator rejects, the handler
  replies 422 ValidationFailed with the list of field errors, which holds the entry of
  the parameter \<^verbatim>\<open>customEmail\<close>, and returns; the run is that reply alone, with no
  encoder call and no delivery attempt.
\<close>

theorem invalid_address_rejected:
  assumes "\<not> isEmail c (customEmail r)"
  shows "sendCustomMail c r = ([validation_failed (validate_direct c r)], Returned) \<and>
         \<lparr>v_location = ''params'', v_param = ''customEmail'', v_msg = ''Invalid value''\<rparr>
           \<in> set (validate_direct c r) \<and>
         responses (fst (sendCustomMail c r)) =
           [(422, \<lparr>status = ''ValidationFailed'', err = ErrList (validate_direct c r),
                   participants = None\<rparr>)] \<and>
         encodings (fst (sendCustomMail c r)) = [] \<and>
         deliveries (fst (sendCustomMail c r)) = []"
proof -
  have field: "\<lparr>v_location = ''params'', v_param = ''customEmail'', v_msg = ''Invalid value''\<rparr>
           \<in> set (validate_direct c r)"
    using assms by (simp add: validate_direct_def failing_def)
  then have "validate_direct c r \<noteq> []"
    by auto
  then have run: "sendCustomMail c r = ([validation_failed (validate_direct c r)], Returned)"
    by (simp add: sendCustomMail_def)
  show ?thesis
    using field by (simp add: run validation_failed_def)
qed

lemma nobody_not_email: "\<not> isEmail stub (customEmail (one\<lparr>customEmail := ''nobody''\<rparr>))"
  by (simp add: stub_def)

lemma nobody_errors:
  "validate_direct stub (one\<lparr>customEmail := ''nobody''\<rparr>) =
     [\<lparr>v_location = ''params'', v_param = ''customEmail'', v_msg = ''Invalid value''\<rparr>]"
  by (simp add: stub_def one_def validate_direct_def failing_def)

theorem invalid_address_rejected_witness:
  "\<not> isEmail stub (customEmail (one\<lparr>customEmail := ''nobody''\<rparr>)) \<and>
   sendCustomMail stub (one\<lparr>customEmail := ''nobody''\<rparr>) =
     ([Respond 422
         \<lparr>status = ''ValidationFailed'',
          err = ErrList [\<lparr>v_location = ''params'', v_param = ''customEmail'',
                          v_msg = ''Invalid value''\<rparr>],
          participants = None\<rparr>],
      Returned) \<and>
   encodings (fst (sendCustomMail stub (one\<lparr>customEmail := ''nobody''\<rparr>))) = [] \<and>
   deliveries (fst (sendCustomMail stub (one\<lparr>customEmail := ''nobody''\<rparr>))) = []"
proof -
  note run = invalid_address_rejected [OF nobody_not_email]
  from run have "sendCustomMail stub (one\<lparr>customEmail := ''nobody''\<rparr>) =
      ([validation_failed (validate_direct stub (one\<lparr>customEmail := ''nobody''\<rparr>))], Returned)"
    by (rule conjunct1)
  then show ?thesis
    using nobody_not_email by (simp add: nobody_errors validation_failed_def)
qed

subsection \<open>The token\<close>

text \<open>
  C10. The token is \<^verbatim>\<open>md5(address + eventName)\<close> and nothing else. Two valid direct
  requests with the same address and event name hand the same single token to the
  encoder, whatever their other fields and whatever the other libraries do. The batch
  route hands no token to the encoder at all (its derivation stops at the ReferenceError
  before md5 is called), so there too no two invocations differ.
\<close>

theorem token_is_function_of_address_and_event:
  assumes "md5 c1 = md5 c2"
    and "customEmail r1 = customEmail r2" and "eventName r1 = eventName r2"
    and "validate_direct c1 r1 = []" and "validate_direct c2 r2 = []"
  shows "encodings (fst (sendCustomMail c1 r1)) = [md5 c1 (customEmail r1 @ eventName r1)] \<and>
         encodings (fst (sendCustomMail c2 r2)) = encodings (fst (sendCustomMail c1 r1)) \<and>
         derive_token c2 (customEmail r2) (eventName r2) =
           derive_token c1 (customEmail r1) (eventName r1) \<and>
         encodings (fst (sendMail c1 b)) = [] \<and> encodings (fst (sendMail c2 b)) = []"
  using assms by (simp add: direct_encodings batch_encodings derive_token_def)

lemma one_valid: "validate_direct stub one = []"
  by (simp add: stub_def one_def validate_direct_def failing_def)

lemma other_valid: "validate_direct stub_no_qr other = []"
  by (simp add: stub_no_qr_def stub_def one_def other_def validate_direct_def failing_def)

theorem token_is_function_of_address_and_event_witness:
  "md5 stub = md5 stub_no_qr \<and> customEmail one = customEmail other \<and>
   eventName one = eventName other \<and>
   validate_direct stub one = [] \<and> validate_direct stub_no_qr other = [] \<and>
   encodings (fst (sendCustomMail stub one)) = [rev ''a@x.orgFest''] \<and>
   encodings (fst (sendCustomMail stub_no_qr other)) = [rev ''a@x.orgFest'']"
proof -
  have m: "md5 stub = md5 stub_no_qr"
    by (simp add: stub_no_qr_def)
  have a: "customEmail one = customEmail other"
    by (simp add: other_def)
  have e: "eventName one = eventName other"
    by (simp add: other_def)
  note run = token_is_function_of_address_and_event [OF m a e one_valid other_valid]
  from run have first: "encodings (fst (sendCustomMail stub one)) =
      [md5 stub (customEmail one @ eventName one)]"
    by (rule conjunct1)
  from run have second: "encodings (fst (sendCustomMail stub_no_qr other)) =
      encodings (fst (sendCustomMail stub one))"
    by (rule conjunct2 [THEN conjunct1])
  have tok: "md5 stub (customEmail one @ eventName one) = rev ''a@x.orgFest''"
    by (simp add: stub_def one_def)
  from first second tok m a e one_valid other_valid show ?thesis
    by simp
qed

end
